theory Spec2Isabelle
  imports Main "HOL-Library.AList"
begin

section \<open>The selective gradient outfeeder (outfeed_optimizer.py)\<close>

text \<open>
  The module defines the enumeration \<open>OutfeedOptimizerMode\<close> and the class
  \<open>OutfeedOptimizer\<close>, a wrapper around an optimizer of the machine-learning framework.
  The wrapper calls into three collaborators whose code is not part of the module: the
  wrapped optimizer, the outfeed queue and the framework (\<open>ops.control_dependencies\<close>,
  \<open>array_ops.identity\<close>, the constructor of the base class). They are parameters of
  the model: records of functions over a framework state \<open>'st\<close> that is left abstract.

  Every call the wrapper makes into a collaborator is appended, with its arguments and
  the value it returned, to a trace that the model carries beside the framework state.
  The trace is how the order of the calls and the values offered to the queue are
  observed; no collaborator can read or change it.

  The module has no \<open>raise\<close> and no \<open>try\<close>; an exception is a value here, and it
  comes from one of three places. The wrapped optimizer's \<open>apply_gradients\<close> raises on
  pairs it finds malformed (the failure the docstring names). \<open>array_ops.identity\<close>
  raises on what it cannot turn into a tensor, such as the gradient \<open>None\<close> of a variable
  that the loss does not depend on. And the loop of \<open>_maybe_enqueue\<close> itself raises when
  \<open>for g, v in ...\<close> cannot unpack an element or when \<open>v.name\<close> does not exist. The
  queue, the wrapped optimizer's \<open>compute_gradients\<close> and its accessors are taken to
  return.
\<close>

subsection \<open>Data\<close>

datatype OutfeedOptimizerMode = AFTER_COMPUTE | BEFORE_APPLY

text \<open>A raised Python exception: its class and its message.\<close>

datatype exn = Exn (exn_class: string) (exn_message: string)

text \<open>A trainable variable; the wrapper reads only its \<open>name\<close>.\<close>

datatype variable = Variable (name: string)

text \<open>
  An element of the list that a caller passes to \<open>apply_gradients\<close>, as the loop
  \<open>for g, v in ...\<close> meets it: a sequence of two components \<open>(g, v)\<close>, where \<open>v\<close> is a
  variable or an object with no attribute \<open>name\<close> (\<open>None\<close>); a sequence of another
  length; an object that cannot be unpacked at all. Gradients \<open>'g\<close> are whatever the
  framework passes around, \<open>None\<close> included.
\<close>

datatype 'g element = Two 'g "variable option" | Not_two | Not_iterable

text \<open>The well-formed lists: every element a (gradient, variable) pair.\<close>

definition pairs :: "('g \<times> variable) list \<Rightarrow> 'g element list" where
  "pairs grads_and_vars = map (\<lambda>(g, v). Two g (Some v)) grads_and_vars"

text \<open>
  The framework: \<open>'g\<close> are tensors, \<open>'o\<close> operations, \<open>'b\<close> the state that the
  constructor of the base class \<open>optimizer.Optimizer\<close> builds from its two arguments.
  \<open>with ops.control_dependencies(c): body\<close> is an enter, the body, an exit.
\<close>

record ('g, 'o, 'b, 'st) tensorflow =
  optimizer_init :: "bool \<Rightarrow> string \<Rightarrow> exn + 'b"
  control_dependencies_enter :: "'o list \<Rightarrow> 'st \<Rightarrow> 'st"
  control_dependencies_exit :: "'st \<Rightarrow> 'st"
  array_ops_identity :: "'g \<Rightarrow> 'st \<Rightarrow> (exn + 'g) \<times> 'st"

text \<open>
  The wrapped optimizer. \<open>'k\<close> are the keyword arguments of \<open>compute_gradients\<close>,
  passed on as they are. \<open>compute_gradients\<close> returns (gradient, variable) pairs, the
  variable always present; \<open>apply_gradients\<close> receives the caller's list as it is.
\<close>

record ('g, 'o, 'k, 'st) optimizer =
  opt_compute_gradients ::
    "'g \<Rightarrow> variable list option \<Rightarrow> 'k \<Rightarrow> 'st \<Rightarrow> ('g \<times> variable) list \<times> 'st"
  opt_apply_gradients ::
    "'g element list \<Rightarrow> variable option \<Rightarrow> string option \<Rightarrow> 'st \<Rightarrow> (exn + 'o) \<times> 'st"
  opt_get_name :: "'st \<Rightarrow> string \<times> 'st"
  opt_get_slot :: "variable \<Rightarrow> string \<Rightarrow> 'st \<Rightarrow> variable option \<times> 'st"
  opt_get_slot_names :: "'st \<Rightarrow> string list \<times> 'st"
  opt_variables :: "'st \<Rightarrow> variable list \<times> 'st"

text \<open>
  The outfeed queue: \<open>maybe_outfeed(key, value)\<close> returns nothing, \<open>maybe_enqueue()\<close>
  returns the enqueue operation or \<open>None\<close>; the wrapper tests that value for truth.
\<close>

record ('g, 'o, 'st) outfeed_queue =
  q_maybe_outfeed :: "string \<Rightarrow> 'g \<Rightarrow> 'st \<Rightarrow> 'st"
  q_maybe_enqueue :: "'st \<Rightarrow> 'o option \<times> 'st"

text \<open>An instance: the state of the base class and the three attributes of \<open>__init__\<close>.\<close>

record ('g, 'o, 'k, 'b, 'st) OutfeedOptimizer =
  base :: 'b
  wrapped_optimizer :: "('g, 'o, 'k, 'st) optimizer"
  outfeed :: "('g, 'o, 'st) outfeed_queue"
  outfeed_optimizer_mode :: OutfeedOptimizerMode

text \<open>A call into a collaborator: its arguments, then (where there is one) its result.\<close>

datatype ('g, 'o, 'k) call =
    Call_compute_gradients 'g "variable list option" 'k "('g \<times> variable) list"
  | Call_maybe_outfeed string 'g
  | Call_maybe_enqueue "'o option"
  | Call_control_dependencies_enter "'o list"
  | Call_identity 'g "exn + 'g"
  | Call_control_dependencies_exit
  | Call_apply_gradients "'g element list" "variable option" "string option" "exn + 'o"
  | Call_get_name string
  | Call_get_slot variable string "variable option"
  | Call_get_slot_names "string list"
  | Call_variables "variable list"

record ('g, 'o, 'k, 'st) world =
  trace :: "('g, 'o, 'k) call list"
  state :: 'st

definition log ::
  "('g, 'o, 'k) call \<Rightarrow> 'st \<Rightarrow> ('g, 'o, 'k, 'st) world \<Rightarrow> ('g, 'o, 'k, 'st) world" where
  "log c st w = \<lparr>trace = trace w @ [c], state = st\<rparr>"

subsection \<open>Calls into the collaborators\<close>

definition call_compute_gradients ::
  "('g, 'o, 'k, 'st) optimizer \<Rightarrow> 'g \<Rightarrow> variable list option \<Rightarrow> 'k \<Rightarrow>
   ('g, 'o, 'k, 'st) world \<Rightarrow> ('g \<times> variable) list \<times> ('g, 'o, 'k, 'st) world" where
  "call_compute_gradients opt loss var_list kwargs w =
     (case opt_compute_gradients opt loss var_list kwargs (state w) of
        (r, st) \<Rightarrow> (r, log (Call_compute_gradients loss var_list kwargs r) st w))"

definition call_apply_gradients ::
  "('g, 'o, 'k, 'st) optimizer \<Rightarrow> 'g element list \<Rightarrow> variable option \<Rightarrow> string option \<Rightarrow>
   ('g, 'o, 'k, 'st) world \<Rightarrow> (exn + 'o) \<times> ('g, 'o, 'k, 'st) world" where
  "call_apply_gradients opt grads_and_vars global_step nm w =
     (case opt_apply_gradients opt grads_and_vars global_step nm (state w) of
        (r, st) \<Rightarrow> (r, log (Call_apply_gradients grads_and_vars global_step nm r) st w))"

definition call_maybe_outfeed ::
  "('g, 'o, 'st) outfeed_queue \<Rightarrow> string \<Rightarrow> 'g \<Rightarrow>
   ('g, 'o, 'k, 'st) world \<Rightarrow> ('g, 'o, 'k, 'st) world" where
  "call_maybe_outfeed q key g w =
     log (Call_maybe_outfeed key g) (q_maybe_outfeed q key g (state w)) w"

definition call_maybe_enqueue ::
  "('g, 'o, 'st) outfeed_queue \<Rightarrow>
   ('g, 'o, 'k, 'st) world \<Rightarrow> 'o option \<times> ('g, 'o, 'k, 'st) world" where
  "call_maybe_enqueue q w =
     (case q_maybe_enqueue q (state w) of (r, st) \<Rightarrow> (r, log (Call_maybe_enqueue r) st w))"

definition call_control_dependencies_enter ::
  "('g, 'o, 'b, 'st) tensorflow \<Rightarrow> 'o list \<Rightarrow>
   ('g, 'o, 'k, 'st) world \<Rightarrow> ('g, 'o, 'k, 'st) world" where
  "call_control_dependencies_enter tf deps w =
     log (Call_control_dependencies_enter deps) (control_dependencies_enter tf deps (state w)) w"

definition call_control_dependencies_exit ::
  "('g, 'o, 'b, 'st) tensorflow \<Rightarrow> ('g, 'o, 'k, 'st) world \<Rightarrow> ('g, 'o, 'k, 'st) world" where
  "call_control_dependencies_exit tf w =
     log Call_control_dependencies_exit (control_dependencies_exit tf (state w)) w"

definition call_identity ::
  "('g, 'o, 'b, 'st) tensorflow \<Rightarrow> 'g \<Rightarrow>
   ('g, 'o, 'k, 'st) world \<Rightarrow> (exn + 'g) \<times> ('g, 'o, 'k, 'st) world" where
  "call_identity tf x w =
     (case array_ops_identity tf x (state w) of (r, st) \<Rightarrow> (r, log (Call_identity x r) st w))"

subsection \<open>The class OutfeedOptimizer\<close>

text \<open>
  \<open>__init__\<close>: an argument that the caller leaves out is \<open>None\<close> here and takes the
  default of the signature. The constructor of the base class runs first, with
  \<open>use_locking = False\<close> and the name; what it raises leaves no instance.
\<close>

definition OutfeedOptimizer_init ::
  "('g, 'o, 'b, 'st) tensorflow \<Rightarrow> ('g, 'o, 'k, 'st) optimizer \<Rightarrow> ('g, 'o, 'st) outfeed_queue \<Rightarrow>
   OutfeedOptimizerMode option \<Rightarrow> string option \<Rightarrow> exn + ('g, 'o, 'k, 'b, 'st) OutfeedOptimizer" where
  "OutfeedOptimizer_init tf wrapped outfeed_queue mode_arg name_arg =
     (let outfeed_optimizer_mode_arg = (case mode_arg of None \<Rightarrow> BEFORE_APPLY | Some m \<Rightarrow> m);
          nm = (case name_arg of None \<Rightarrow> ''OutfeedOptimizer'' | Some n \<Rightarrow> n)
      in case optimizer_init tf False nm of
           Inl e \<Rightarrow> Inl e
         | Inr b \<Rightarrow> Inr \<lparr>base = b, wrapped_optimizer = wrapped, outfeed = outfeed_queue,
                        outfeed_optimizer_mode = outfeed_optimizer_mode_arg\<rparr>)"

text \<open>
  The loop of \<open>_maybe_enqueue\<close> over the reversed list. Each round unpacks the element
  into \<open>g, v\<close>, reads \<open>v.name\<close>, and only then calls the queue; the first round that
  cannot do so raises, and the rounds after it do not run.
\<close>

fun offer_all ::
  "('g, 'o, 'st) outfeed_queue \<Rightarrow> 'g element list \<Rightarrow>
   ('g, 'o, 'k, 'st) world \<Rightarrow> (exn + unit) \<times> ('g, 'o, 'k, 'st) world" where
  "offer_all q [] w = (Inr (), w)"
| "offer_all q (Two g (Some v) # rest) w =
     offer_all q rest (call_maybe_outfeed q (name v @ ''_grad'') g w)"
| "offer_all q (Two g None # rest) w =
     (Inl (Exn ''AttributeError'' ''object has no attribute name''), w)"
| "offer_all q (Not_two # rest) w =
     (Inl (Exn ''ValueError'' ''wrong number of values to unpack (expected 2)''), w)"
| "offer_all q (Not_iterable # rest) w =
     (Inl (Exn ''TypeError'' ''cannot unpack non-iterable object''), w)"

definition maybe_enqueue ::
  "('g, 'o, 'k, 'b, 'st) OutfeedOptimizer \<Rightarrow> 'g element list \<Rightarrow>
   ('g, 'o, 'k, 'st) world \<Rightarrow> (exn + 'o option) \<times> ('g, 'o, 'k, 'st) world" where
  "maybe_enqueue self grads_and_vars w =
     (case offer_all (outfeed self) (rev grads_and_vars) w of
        (Inl e, w') \<Rightarrow> (Inl e, w')
      | (Inr _, w') \<Rightarrow>
          (case call_maybe_enqueue (outfeed self) w' of (r, w'') \<Rightarrow> (Inr r, w'')))"

text \<open>
  The list comprehension of \<open>compute_gradients\<close>:
  \<open>[(identity(x) if i == 0 else x, y) for i, (x, y) in enumerate(grads_and_vars)]\<close>,
  with \<open>i\<close> the running index. What \<open>identity\<close> raises ends the comprehension.
\<close>

fun identity_on_first ::
  "('g, 'o, 'b, 'st) tensorflow \<Rightarrow> nat \<Rightarrow> ('g \<times> variable) list \<Rightarrow>
   ('g, 'o, 'k, 'st) world \<Rightarrow> (exn + ('g \<times> variable) list) \<times> ('g, 'o, 'k, 'st) world" where
  "identity_on_first tf i [] w = (Inr [], w)"
| "identity_on_first tf i ((x, y) # rest) w =
     (if i = 0 then
        (case call_identity tf x w of
           (Inl e, w') \<Rightarrow> (Inl e, w')
         | (Inr x', w') \<Rightarrow>
             (case identity_on_first tf (Suc i) rest w' of
                (Inl e, w'') \<Rightarrow> (Inl e, w'')
              | (Inr r, w'') \<Rightarrow> (Inr ((x', y) # r), w'')))
      else
        (case identity_on_first tf (Suc i) rest w of
           (Inl e, w') \<Rightarrow> (Inl e, w')
         | (Inr r, w') \<Rightarrow> (Inr ((x, y) # r), w')))"

text \<open>
  \<open>compute_gradients\<close>. The pairs come from the wrapped optimizer, so the loop of
  \<open>_maybe_enqueue\<close> meets well-formed elements only. An exception inside the
  \<open>with\<close> block leaves the block (the exit runs) and goes on to the caller.
\<close>

definition compute_gradients ::
  "('g, 'o, 'b, 'st) tensorflow \<Rightarrow> ('g, 'o, 'k, 'b, 'st) OutfeedOptimizer \<Rightarrow>
   'g \<Rightarrow> variable list option \<Rightarrow> 'k \<Rightarrow>
   ('g, 'o, 'k, 'st) world \<Rightarrow> (exn + ('g \<times> variable) list) \<times> ('g, 'o, 'k, 'st) world" where
  "compute_gradients tf self loss var_list kwargs w =
     (case call_compute_gradients (wrapped_optimizer self) loss var_list kwargs w of
        (grads_and_vars, w1) \<Rightarrow>
          if outfeed_optimizer_mode self = AFTER_COMPUTE then
            (case maybe_enqueue self (pairs grads_and_vars) w1 of
               (Inl e, w2) \<Rightarrow> (Inl e, w2)
             | (Inr (Some enqueue), w2) \<Rightarrow>
                 (case identity_on_first tf 0 grads_and_vars
                         (call_control_dependencies_enter tf [enqueue] w2) of
                    (r, w3) \<Rightarrow> (r, call_control_dependencies_exit tf w3))
             | (Inr None, w2) \<Rightarrow> (Inr grads_and_vars, w2))
          else (Inr grads_and_vars, w1))"

definition apply_gradients ::
  "('g, 'o, 'b, 'st) tensorflow \<Rightarrow> ('g, 'o, 'k, 'b, 'st) OutfeedOptimizer \<Rightarrow>
   'g element list \<Rightarrow> variable option \<Rightarrow> string option \<Rightarrow>
   ('g, 'o, 'k, 'st) world \<Rightarrow> (exn + 'o) \<times> ('g, 'o, 'k, 'st) world" where
  "apply_gradients tf self grads_and_vars global_step nm w =
     (if outfeed_optimizer_mode self = BEFORE_APPLY then
        (case maybe_enqueue self grads_and_vars w of
           (Inl e, w1) \<Rightarrow> (Inl e, w1)
         | (Inr (Some enqueue), w1) \<Rightarrow>
             (case call_apply_gradients (wrapped_optimizer self) grads_and_vars global_step nm
                     (call_control_dependencies_enter tf [enqueue] w1) of
                (r, w2) \<Rightarrow> (r, call_control_dependencies_exit tf w2))
         | (Inr None, w1) \<Rightarrow>
             call_apply_gradients (wrapped_optimizer self) grads_and_vars global_step nm w1)
      else call_apply_gradients (wrapped_optimizer self) grads_and_vars global_step nm w)"

definition get_name ::
  "('g, 'o, 'k, 'b, 'st) OutfeedOptimizer \<Rightarrow>
   ('g, 'o, 'k, 'st) world \<Rightarrow> string \<times> ('g, 'o, 'k, 'st) world" where
  "get_name self w =
     (case opt_get_name (wrapped_optimizer self) (state w) of
        (r, st) \<Rightarrow> (r, log (Call_get_name r) st w))"

definition get_slot ::
  "('g, 'o, 'k, 'b, 'st) OutfeedOptimizer \<Rightarrow> variable \<Rightarrow> string \<Rightarrow>
   ('g, 'o, 'k, 'st) world \<Rightarrow> variable option \<times> ('g, 'o, 'k, 'st) world" where
  "get_slot self var nm w =
     (case opt_get_slot (wrapped_optimizer self) var nm (state w) of
        (r, st) \<Rightarrow> (r, log (Call_get_slot var nm r) st w))"

definition get_slot_names ::
  "('g, 'o, 'k, 'b, 'st) OutfeedOptimizer \<Rightarrow>
   ('g, 'o, 'k, 'st) world \<Rightarrow> string list \<times> ('g, 'o, 'k, 'st) world" where
  "get_slot_names self w =
     (case opt_get_slot_names (wrapped_optimizer self) (state w) of
        (r, st) \<Rightarrow> (r, log (Call_get_slot_names r) st w))"

definition variables ::
  "('g, 'o, 'k, 'b, 'st) OutfeedOptimizer \<Rightarrow>
   ('g, 'o, 'k, 'st) world \<Rightarrow> variable list \<times> ('g, 'o, 'k, 'st) world" where
  "variables self w =
     (case opt_variables (wrapped_optimizer self) (state w) of
        (r, st) \<Rightarrow> (r, log (Call_variables r) st w))"

subsection \<open>Observing a run\<close>

text \<open>The calls made between two worlds: what the later trace has beyond the earlier one.\<close>

definition new_calls ::
  "('g, 'o, 'k, 'st) world \<Rightarrow> ('g, 'o, 'k, 'st) world \<Rightarrow> ('g, 'o, 'k) call list" where
  "new_calls w w' = drop (length (trace w)) (trace w')"

text \<open>The key and value of every \<open>maybe_outfeed\<close> call of a trace, in order.\<close>

fun offered :: "('g, 'o, 'k) call list \<Rightarrow> (string \<times> 'g) list" where
  "offered [] = []"
| "offered (Call_maybe_outfeed key g # cs) = (key, g) # offered cs"
| "offered (_ # cs) = offered cs"

fun is_queue_call :: "('g, 'o, 'k) call \<Rightarrow> bool" where
  "is_queue_call (Call_maybe_outfeed key g) = True"
| "is_queue_call (Call_maybe_enqueue r) = True"
| "is_queue_call _ = False"

fun is_apply_call :: "('g, 'o, 'k) call \<Rightarrow> bool" where
  "is_apply_call (Call_apply_gradients gv gs nm r) = True"
| "is_apply_call _ = False"

fun is_graph_call :: "('g, 'o, 'k) call \<Rightarrow> bool" where
  "is_graph_call (Call_control_dependencies_enter deps) = True"
| "is_graph_call (Call_identity x r) = True"
| "is_graph_call Call_control_dependencies_exit = True"
| "is_graph_call _ = False"

text \<open>The offers that \<open>_maybe_enqueue\<close> makes for a list of pairs, as calls.\<close>

definition offers :: "('g \<times> variable) list \<Rightarrow> ('g, 'o, 'k) call list" where
  "offers grads_and_vars =
     map (\<lambda>(g, v). Call_maybe_outfeed (name v @ ''_grad'') g) (rev grads_and_vars)"

text \<open>
  The state of the collaborators after the offers of \<open>_maybe_enqueue\<close> for a list of
  pairs: the queue's \<open>maybe_outfeed\<close>, key after key, from the last pair to the first.
\<close>

definition offered_state ::
  "('g, 'o, 'st) outfeed_queue \<Rightarrow> ('g \<times> variable) list \<Rightarrow> 'st \<Rightarrow> 'st" where
  "offered_state q grads_and_vars st =
     foldl (\<lambda>s (g, v). q_maybe_outfeed q (name v @ ''_grad'') g s) st (rev grads_and_vars)"

text \<open>A body of calls run under \<open>with ops.control_dependencies([e])\<close> when \<open>r = Some e\<close>.\<close>

definition gate :: "'o option \<Rightarrow> ('g, 'o, 'k) call list \<Rightarrow> ('g, 'o, 'k) call list" where
  "gate r body =
     (case r of
        None \<Rightarrow> body
      | Some e \<Rightarrow> [Call_control_dependencies_enter [e]] @ body @ [Call_control_dependencies_exit])"

text \<open>
  A method invocation on an instance, and a run of several on the same instance, each
  result dropped: the wrapper as a training loop uses it.
\<close>

datatype ('g, 'k) invocation =
    Compute_gradients 'g "variable list option" 'k
  | Apply_gradients "'g element list" "variable option" "string option"
  | Get_name
  | Get_slot variable string
  | Get_slot_names
  | Variables

fun invoke ::
  "('g, 'o, 'b, 'st) tensorflow \<Rightarrow> ('g, 'o, 'k, 'b, 'st) OutfeedOptimizer \<Rightarrow>
   ('g, 'k) invocation \<Rightarrow> ('g, 'o, 'k, 'st) world \<Rightarrow> ('g, 'o, 'k, 'st) world" where
  "invoke tf self (Compute_gradients loss var_list kwargs) w =
     snd (compute_gradients tf self loss var_list kwargs w)"
| "invoke tf self (Apply_gradients grads_and_vars global_step nm) w =
     snd (apply_gradients tf self grads_and_vars global_step nm w)"
| "invoke tf self Get_name w = snd (get_name self w)"
| "invoke tf self (Get_slot var nm) w = snd (get_slot self var nm w)"
| "invoke tf self Get_slot_names w = snd (get_slot_names self w)"
| "invoke tf self Variables w = snd (variables self w)"

fun invoke_all ::
  "('g, 'o, 'b, 'st) tensorflow \<Rightarrow> ('g, 'o, 'k, 'b, 'st) OutfeedOptimizer \<Rightarrow>
   ('g, 'k) invocation list \<Rightarrow> ('g, 'o, 'k, 'st) world \<Rightarrow> ('g, 'o, 'k, 'st) world" where
  "invoke_all tf self [] w = w"
| "invoke_all tf self (m # ms) w = invoke_all tf self ms (invoke tf self m w)"

fun is_apply_invocation :: "('g, 'k) invocation \<Rightarrow> bool" where
  "is_apply_invocation (Apply_gradients grads_and_vars global_step nm) = True"
| "is_apply_invocation _ = False"

fun is_compute_invocation :: "('g, 'k) invocation \<Rightarrow> bool" where
  "is_compute_invocation (Compute_gradients loss var_list kwargs) = True"
| "is_compute_invocation _ = False"

subsection \<open>Example collaborators\<close>

text \<open>
  Concrete collaborators on which the theorems below are instantiated: a framework whose
  state holds the stack of active control dependencies, a gradient-descent stand-in, and
  the filtering queue.
\<close>

text \<open>
  Tensors: a gradient with a value, the identity of a tensor with the control
  dependencies it was created under, and Python's \<open>None\<close>, the gradient of a variable
  that the loss does not depend on.
\<close>

datatype example_tensor = Grad int | Identity example_tensor "nat list" | No_gradient

record example_state =
  control_stack :: "nat list list"
  queue_vals :: "(string \<times> example_tensor) list"
  enqueued :: bool
  global_steps :: nat

definition example_tensorflow ::
  "(example_tensor, nat, bool \<times> string, example_state) tensorflow" where
  "example_tensorflow =
     \<lparr>optimizer_init = (\<lambda>use_locking nm.
        if nm = [] then Inl (Exn ''ValueError'' ''Must specify the optimizer name'')
        else Inr (use_locking, nm)),
      control_dependencies_enter = (\<lambda>deps st. st\<lparr>control_stack := deps # control_stack st\<rparr>),
      control_dependencies_exit = (\<lambda>st. st\<lparr>control_stack := tl (control_stack st)\<rparr>),
      array_ops_identity = (\<lambda>x st.
        if x = No_gradient then (Inl (Exn ''ValueError'' ''None values not supported.''), st)
        else (Inr (Identity x (concat (control_stack st))), st))\<rparr>"

text \<open>Python's \<open>f in key\<close> on strings.\<close>

fun starts_with :: "string \<Rightarrow> string \<Rightarrow> bool" where
  "starts_with [] s = True"
| "starts_with (c # cs) [] = False"
| "starts_with (c # cs) (d # ds) = (c = d \<and> starts_with cs ds)"

fun contains :: "string \<Rightarrow> string \<Rightarrow> bool" where
  "contains f [] = (f = [])"
| "contains f (c # cs) = (starts_with f (c # cs) \<or> contains f cs)"

fun is_pair :: "'g element \<Rightarrow> bool" where
  "is_pair (Two g (Some v)) = True"
| "is_pair _ = False"

text \<open>
  A stand-in optimizer. A variable whose name starts with \<open>unused\<close> gets no gradient.
  \<open>apply_gradients\<close> rejects an empty list and a list with a malformed element with a
  \<open>ValueError\<close>; the operation it returns is numbered after the number of pairs and,
  \<open>k\<close> times, the number of control dependencies that are active when it is created.
\<close>

definition stand_in_optimizer ::
  "nat \<Rightarrow> (example_tensor, nat, unit, example_state) optimizer" where
  "stand_in_optimizer k =
     \<lparr>opt_compute_gradients = (\<lambda>loss var_list kwargs st.
        (map (\<lambda>v. (if starts_with ''unused'' (name v) then No_gradient
                      else Grad (int (length (name v))), v))
           (case var_list of None \<Rightarrow> [Variable ''weight1'', Variable ''bias1'']
            | Some vs \<Rightarrow> vs), st)),
      opt_apply_gradients = (\<lambda>grads_and_vars global_step nm st.
        if grads_and_vars = [] then (Inl (Exn ''ValueError'' ''No variables provided.''), st)
        else if \<not> list_all is_pair grads_and_vars
        then (Inl (Exn ''ValueError'' ''malformed grads_and_vars''), st)
        else (Inr (100 + length grads_and_vars + k * length (concat (control_stack st))),
              st\<lparr>global_steps := global_steps st + (case global_step of None \<Rightarrow> 0 | Some _ \<Rightarrow> 1)\<rparr>)),
      opt_get_name = (\<lambda>st. (''GradientDescent'', st)),
      opt_get_slot = (\<lambda>var nm st. (None, st)),
      opt_get_slot_names = (\<lambda>st. ([], st)),
      opt_variables = (\<lambda>st. ([], st))\<rparr>"

text \<open>The one used throughout sees the control dependencies.\<close>

definition example_optimizer :: "(example_tensor, nat, unit, example_state) optimizer" where
  "example_optimizer = stand_in_optimizer 1000"


text \<open>
  Modelled from the spec: the outfeed queue \<open>MaybeOutfeedQueue\<close>, whose source is
  missing. It accepts a mapping from name to value; a
  name passes when no filter was supplied or when it includes one of the filter elements;
  the commit returns the enqueue operation when anything was accepted, and nothing
  otherwise, and sets the flag that a consumer reads before a dequeue.
\<close>

definition MaybeOutfeedQueue ::
  "string list option \<Rightarrow> (example_tensor, nat, example_state) outfeed_queue" where
  "MaybeOutfeedQueue filters =
     \<lparr>q_maybe_outfeed = (\<lambda>key value st.
        if (case filters of None \<Rightarrow> True | Some fs \<Rightarrow> list_ex (\<lambda>f. contains f key) fs)
        then st\<lparr>queue_vals := AList.update key value (queue_vals st)\<rparr>
        else st),
      q_maybe_enqueue = (\<lambda>st.
        if queue_vals st = [] then (None, st) else (Some 7, st\<lparr>enqueued := True\<rparr>))\<rparr>"

definition example_world :: "(example_tensor, nat, unit, example_state) world" where
  "example_world =
     \<lparr>trace = [],
      state = \<lparr>control_stack = [], queue_vals = [], enqueued = False, global_steps = 0\<rparr>\<rparr>"

definition example_outfeeder ::
  "string list option \<Rightarrow> OutfeedOptimizerMode \<Rightarrow>
   (example_tensor, nat, unit, bool \<times> string, example_state) OutfeedOptimizer" where
  "example_outfeeder filters mode =
     \<lparr>base = (False, ''OutfeedOptimizer''), wrapped_optimizer = example_optimizer,
      outfeed = MaybeOutfeedQueue filters, outfeed_optimizer_mode = mode\<rparr>"

definition example_grads_and_vars :: "(example_tensor \<times> variable) list" where
  "example_grads_and_vars = [(Grad 7, Variable ''weight1''), (Grad 5, Variable ''bias1'')]"

section \<open>Properties\<close>

subsection \<open>The two methods, mode by mode\<close>

lemma trace_log [simp]: "trace (log c st w) = trace w @ [c]"
  by (simp add: log_def)

lemma state_log [simp]: "state (log c st w) = st"
  by (simp add: log_def)

lemma new_calls_append: "trace w' = trace w @ cs \<Longrightarrow> new_calls w w' = cs"
  by (simp add: new_calls_def)

lemma new_calls_record [simp]: "new_calls w \<lparr>trace = trace w @ cs, state = st\<rparr> = cs"
  by (simp add: new_calls_def)

lemma rev_pairs: "rev (pairs gv) = pairs (rev gv)"
  by (simp add: pairs_def rev_map)

lemma offer_all_pairs:
  "offer_all q (pairs xs) w =
     (Inr (), \<lparr>trace = trace w @ map (\<lambda>(g, v). Call_maybe_outfeed (name v @ ''_grad'') g) xs,
               state = foldl (\<lambda>s (g, v). q_maybe_outfeed q (name v @ ''_grad'') g s) (state w) xs\<rparr>)"
proof (induction xs arbitrary: w)
  case Nil
  show ?case by (simp add: pairs_def)
next
  case (Cons x xs)
  obtain g v where x: "x = (g, v)" by (cases x)
  show ?case
    using Cons [of "call_maybe_outfeed q (name v @ ''_grad'') g w"]
    by (simp add: pairs_def x call_maybe_outfeed_def)
qed

lemma maybe_enqueue_pairs:
  assumes "q_maybe_enqueue (outfeed self) (offered_state (outfeed self) gv (state w)) = (r, st_c)"
  shows "maybe_enqueue self (pairs gv) w =
           (Inr r, \<lparr>trace = trace w @ offers gv @ [Call_maybe_enqueue r], state = st_c\<rparr>)"
  using assms
  by (simp add: maybe_enqueue_def rev_pairs offer_all_pairs call_maybe_enqueue_def log_def
        offers_def offered_state_def)

text \<open>The loop on a list with an element that cannot be unpacked or has no name.\<close>

lemma offer_all_stops:
  "offer_all q (pairs xs @ Two g None # rest) w =
     (Inl (Exn ''AttributeError'' ''object has no attribute name''),
      \<lparr>trace = trace w @ map (\<lambda>(g, v). Call_maybe_outfeed (name v @ ''_grad'') g) xs,
        state = foldl (\<lambda>s (g, v). q_maybe_outfeed q (name v @ ''_grad'') g s) (state w) xs\<rparr>)"
  "offer_all q (pairs xs @ Not_two # rest) w =
     (Inl (Exn ''ValueError'' ''wrong number of values to unpack (expected 2)''),
      \<lparr>trace = trace w @ map (\<lambda>(g, v). Call_maybe_outfeed (name v @ ''_grad'') g) xs,
        state = foldl (\<lambda>s (g, v). q_maybe_outfeed q (name v @ ''_grad'') g s) (state w) xs\<rparr>)"
  "offer_all q (pairs xs @ Not_iterable # rest) w =
     (Inl (Exn ''TypeError'' ''cannot unpack non-iterable object''),
      \<lparr>trace = trace w @ map (\<lambda>(g, v). Call_maybe_outfeed (name v @ ''_grad'') g) xs,
        state = foldl (\<lambda>s (g, v). q_maybe_outfeed q (name v @ ''_grad'') g s) (state w) xs\<rparr>)"
proof (induction xs arbitrary: w)
  case Nil
  {
    case 1 show ?case by (simp add: pairs_def)
  next
    case 2 show ?case by (simp add: pairs_def)
  next
    case 3 show ?case by (simp add: pairs_def)
  }
next
  case (Cons x xs)
  obtain g' v where x: "x = (g', v)" by (cases x)
  {
    case 1 show ?case
      using Cons(1) [of "call_maybe_outfeed q (name v @ ''_grad'') g' w"]
      by (simp add: pairs_def x call_maybe_outfeed_def)
  next
    case 2 show ?case
      using Cons(2) [of "call_maybe_outfeed q (name v @ ''_grad'') g' w"]
      by (simp add: pairs_def x call_maybe_outfeed_def)
  next
    case 3 show ?case
      using Cons(3) [of "call_maybe_outfeed q (name v @ ''_grad'') g' w"]
      by (simp add: pairs_def x call_maybe_outfeed_def)
  }
qed

lemma identity_on_first_Suc: "identity_on_first tf (Suc i) xs w = (Inr xs, w)"
  by (induction xs arbitrary: i w) auto

lemma apply_gradients_after_eq:
  assumes "outfeed_optimizer_mode self = AFTER_COMPUTE"
  shows "apply_gradients tf self items gs nm w =
           call_apply_gradients (wrapped_optimizer self) items gs nm w"
  using assms by (simp add: apply_gradients_def)

lemma apply_gradients_after_full:
  assumes "outfeed_optimizer_mode self = AFTER_COMPUTE"
    and "opt_apply_gradients (wrapped_optimizer self) items gs nm (state w) = (res, st_a)"
  shows "apply_gradients tf self items gs nm w =
           (res, \<lparr>trace = trace w @ [Call_apply_gradients items gs nm res], state = st_a\<rparr>)"
  using assms by (simp add: apply_gradients_def call_apply_gradients_def log_def)

lemma apply_gradients_before_full:
  assumes "outfeed_optimizer_mode self = BEFORE_APPLY"
    and "q_maybe_enqueue (outfeed self) (offered_state (outfeed self) gv (state w)) = (r, st_c)"
    and "opt_apply_gradients (wrapped_optimizer self) (pairs gv) gs nm
           (case r of None \<Rightarrow> st_c | Some e \<Rightarrow> control_dependencies_enter tf [e] st_c) =
         (res, st_a)"
  shows "apply_gradients tf self (pairs gv) gs nm w =
           (res, \<lparr>trace = trace w @ offers gv @ [Call_maybe_enqueue r] @
                            gate r [Call_apply_gradients (pairs gv) gs nm res],
                  state = (case r of None \<Rightarrow> st_a | Some e \<Rightarrow> control_dependencies_exit tf st_a)\<rparr>)"
  using assms(1,3)
  by (cases r)
     (simp_all add: apply_gradients_def maybe_enqueue_pairs [OF assms(2)] gate_def
        call_apply_gradients_def call_control_dependencies_enter_def
        call_control_dependencies_exit_def log_def)

lemma compute_gradients_before_full:
  assumes "outfeed_optimizer_mode self = BEFORE_APPLY"
    and "opt_compute_gradients (wrapped_optimizer self) loss vl kw (state w) = (p, st0)"
  shows "compute_gradients tf self loss vl kw w =
           (Inr p, \<lparr>trace = trace w @ [Call_compute_gradients loss vl kw p], state = st0\<rparr>)"
  using assms by (simp add: compute_gradients_def call_compute_gradients_def log_def)

lemma compute_gradients_after_None:
  assumes "outfeed_optimizer_mode self = AFTER_COMPUTE"
    and "opt_compute_gradients (wrapped_optimizer self) loss vl kw (state w) = (p, st0)"
    and "q_maybe_enqueue (outfeed self) (offered_state (outfeed self) p st0) = (None, st_c)"
  shows "compute_gradients tf self loss vl kw w =
           (Inr p, \<lparr>trace = trace w @ [Call_compute_gradients loss vl kw p] @ offers p @
                             [Call_maybe_enqueue None],
                    state = st_c\<rparr>)"
  using assms(1,2)
    maybe_enqueue_pairs [of self p "log (Call_compute_gradients loss vl kw p) st0 w" None st_c]
    assms(3)
  by (simp add: compute_gradients_def call_compute_gradients_def)

lemma compute_gradients_after_Some_Nil:
  assumes "outfeed_optimizer_mode self = AFTER_COMPUTE"
    and "opt_compute_gradients (wrapped_optimizer self) loss vl kw (state w) = ([], st0)"
    and "q_maybe_enqueue (outfeed self) (offered_state (outfeed self) [] st0) = (Some e, st_c)"
  shows "compute_gradients tf self loss vl kw w =
           (Inr [], \<lparr>trace = trace w @ [Call_compute_gradients loss vl kw [],
                              Call_maybe_enqueue (Some e), Call_control_dependencies_enter [e],
                              Call_control_dependencies_exit],
                     state = control_dependencies_exit tf (control_dependencies_enter tf [e] st_c)\<rparr>)"
  using assms(1,2)
    maybe_enqueue_pairs [of self "[]" "log (Call_compute_gradients loss vl kw []) st0 w" "Some e" st_c]
    assms(3)
  by (simp add: compute_gradients_def call_compute_gradients_def offers_def
        call_control_dependencies_enter_def call_control_dependencies_exit_def log_def)

lemma compute_gradients_after_Some_Cons:
  assumes "outfeed_optimizer_mode self = AFTER_COMPUTE"
    and "opt_compute_gradients (wrapped_optimizer self) loss vl kw (state w) = ((g, v) # rest, st0)"
    and "q_maybe_enqueue (outfeed self) (offered_state (outfeed self) ((g, v) # rest) st0) =
           (Some e, st_c)"
    and "array_ops_identity tf g (control_dependencies_enter tf [e] st_c) = (res, st_i)"
  shows "compute_gradients tf self loss vl kw w =
           (case res of Inl x \<Rightarrow> Inl x | Inr g' \<Rightarrow> Inr ((g', v) # rest),
            \<lparr>trace = trace w @ [Call_compute_gradients loss vl kw ((g, v) # rest)] @
                       offers ((g, v) # rest) @
                       [Call_maybe_enqueue (Some e), Call_control_dependencies_enter [e],
                        Call_identity g res, Call_control_dependencies_exit],
             state = control_dependencies_exit tf st_i\<rparr>)"
  using assms(1,2,4)
    maybe_enqueue_pairs [of self "(g, v) # rest"
      "log (Call_compute_gradients loss vl kw ((g, v) # rest)) st0 w" "Some e" st_c]
    assms(3)
  by (cases res)
     (simp_all add: compute_gradients_def call_compute_gradients_def identity_on_first_Suc
        call_identity_def call_control_dependencies_enter_def call_control_dependencies_exit_def
        log_def)


lemma filter_offers [simp]:
  "filter is_apply_call (offers gv) = []"
  "filter is_graph_call (offers gv) = []"
  "filter is_queue_call (offers gv) = offers gv"
  by (induction gv) (auto simp: offers_def)

lemma offered_append: "offered (xs @ ys) = offered xs @ offered ys"
  by (induction xs rule: offered.induct) simp_all

lemma offered_offers: "offered (offers gv) = map (\<lambda>(g, v). (name v @ ''_grad'', g)) (rev gv)"
proof -
  have "offered (map (\<lambda>(g, v). Call_maybe_outfeed (name v @ ''_grad'') g) xs) =
          map (\<lambda>(g, v). (name v @ ''_grad'', g)) xs" for xs :: "('a \<times> variable) list"
    by (induction xs) auto
  then show ?thesis by (simp add: offers_def)
qed

lemma gate_simps [simp]:
  "offered (gate r [Call_apply_gradients items gs nm res]) = []"
  "filter is_queue_call (gate r [Call_apply_gradients items gs nm res]) = []"
  "filter is_apply_call (gate r [Call_apply_gradients items gs nm res]) =
     [Call_apply_gradients items gs nm res]"
  by (cases r; simp add: gate_def)+

lemma commit_not_in_offers [simp]: "Call_maybe_enqueue x \<notin> set (offers p)"
  by (auto simp: offers_def)

text \<open>The runs of the two methods on well-formed lists, case by case.\<close>

lemma apply_gradients_before_cases:
  assumes "outfeed_optimizer_mode self = BEFORE_APPLY"
  obtains r st_c res st_a where
    "q_maybe_enqueue (outfeed self) (offered_state (outfeed self) gv (state w)) = (r, st_c)"
    "opt_apply_gradients (wrapped_optimizer self) (pairs gv) gs nm
       (case r of None \<Rightarrow> st_c | Some e \<Rightarrow> control_dependencies_enter tf [e] st_c) = (res, st_a)"
    "apply_gradients tf self (pairs gv) gs nm w =
       (res, \<lparr>trace = trace w @ offers gv @ [Call_maybe_enqueue r] @
                        gate r [Call_apply_gradients (pairs gv) gs nm res],
              state = (case r of None \<Rightarrow> st_a | Some e \<Rightarrow> control_dependencies_exit tf st_a)\<rparr>)"
proof -
  obtain r st_c where
    a: "q_maybe_enqueue (outfeed self) (offered_state (outfeed self) gv (state w)) = (r, st_c)"
    by (cases "q_maybe_enqueue (outfeed self) (offered_state (outfeed self) gv (state w))")
  obtain res st_a where
    b: "opt_apply_gradients (wrapped_optimizer self) (pairs gv) gs nm
       (case r of None \<Rightarrow> st_c | Some e \<Rightarrow> control_dependencies_enter tf [e] st_c) = (res, st_a)"
    by (cases "opt_apply_gradients (wrapped_optimizer self) (pairs gv) gs nm
       (case r of None \<Rightarrow> st_c | Some e \<Rightarrow> control_dependencies_enter tf [e] st_c)")
  show thesis
    using that [OF a b apply_gradients_before_full [OF assms a b]] .
qed

lemma apply_gradients_after_cases:
  assumes "outfeed_optimizer_mode self = AFTER_COMPUTE"
  obtains res st_a where
    "opt_apply_gradients (wrapped_optimizer self) items gs nm (state w) = (res, st_a)"
    "apply_gradients tf self items gs nm w =
       (res, \<lparr>trace = trace w @ [Call_apply_gradients items gs nm res], state = st_a\<rparr>)"
proof -
  obtain res st_a where
    a: "opt_apply_gradients (wrapped_optimizer self) items gs nm (state w) = (res, st_a)"
    by (cases "opt_apply_gradients (wrapped_optimizer self) items gs nm (state w)")
  show thesis
    using that [OF a apply_gradients_after_full [OF assms a]] .
qed

lemma compute_gradients_before_cases:
  assumes "outfeed_optimizer_mode self = BEFORE_APPLY"
  obtains p st0 where
    "opt_compute_gradients (wrapped_optimizer self) loss vl kw (state w) = (p, st0)"
    "compute_gradients tf self loss vl kw w =
       (Inr p, \<lparr>trace = trace w @ [Call_compute_gradients loss vl kw p], state = st0\<rparr>)"
proof -
  obtain p st0 where
    a: "opt_compute_gradients (wrapped_optimizer self) loss vl kw (state w) = (p, st0)"
    by (cases "opt_compute_gradients (wrapped_optimizer self) loss vl kw (state w)")
  show thesis
    using that [OF a compute_gradients_before_full [OF assms a]] .
qed

text \<open>
  After-compute mode: what \<open>compute_gradients\<close> returns, the calls it makes and the state
  it leaves, from the produced pairs \<open>p\<close>, the commit's result \<open>r\<close> and the result
  \<open>res\<close> of the identity (when there is one).
\<close>

lemma compute_gradients_after_cases:
  assumes "outfeed_optimizer_mode self = AFTER_COMPUTE"
  obtains
    (Nothing) p st0 st_c where
      "opt_compute_gradients (wrapped_optimizer self) loss vl kw (state w) = (p, st0)"
      "q_maybe_enqueue (outfeed self) (offered_state (outfeed self) p st0) = (None, st_c)"
      "compute_gradients tf self loss vl kw w =
         (Inr p, \<lparr>trace = trace w @ [Call_compute_gradients loss vl kw p] @ offers p @
                           [Call_maybe_enqueue None],
                  state = st_c\<rparr>)"
  | (Gated_Nil) st0 e st_c where
      "opt_compute_gradients (wrapped_optimizer self) loss vl kw (state w) = ([], st0)"
      "q_maybe_enqueue (outfeed self) (offered_state (outfeed self) [] st0) = (Some e, st_c)"
      "compute_gradients tf self loss vl kw w =
         (Inr [], \<lparr>trace = trace w @ [Call_compute_gradients loss vl kw [],
                            Call_maybe_enqueue (Some e), Call_control_dependencies_enter [e],
                            Call_control_dependencies_exit],
                   state = control_dependencies_exit tf (control_dependencies_enter tf [e] st_c)\<rparr>)"
  | (Gated_Cons) g v rest st0 e st_c res st_i where
      "opt_compute_gradients (wrapped_optimizer self) loss vl kw (state w) = ((g, v) # rest, st0)"
      "q_maybe_enqueue (outfeed self) (offered_state (outfeed self) ((g, v) # rest) st0) =
         (Some e, st_c)"
      "array_ops_identity tf g (control_dependencies_enter tf [e] st_c) = (res, st_i)"
      "compute_gradients tf self loss vl kw w =
         (case res of Inl x \<Rightarrow> Inl x | Inr g' \<Rightarrow> Inr ((g', v) # rest),
          \<lparr>trace = trace w @ [Call_compute_gradients loss vl kw ((g, v) # rest)] @
                     offers ((g, v) # rest) @
                     [Call_maybe_enqueue (Some e), Call_control_dependencies_enter [e],
                      Call_identity g res, Call_control_dependencies_exit],
           state = control_dependencies_exit tf st_i\<rparr>)"
proof -
  obtain p st0 where
    a: "opt_compute_gradients (wrapped_optimizer self) loss vl kw (state w) = (p, st0)"
    by (cases "opt_compute_gradients (wrapped_optimizer self) loss vl kw (state w)")
  obtain r st_c where
    b: "q_maybe_enqueue (outfeed self) (offered_state (outfeed self) p st0) = (r, st_c)"
    by (cases "q_maybe_enqueue (outfeed self) (offered_state (outfeed self) p st0)")
  show thesis
  proof (cases r)
    case None
    have c: "compute_gradients tf self loss vl kw w =
         (Inr p, \<lparr>trace = trace w @ [Call_compute_gradients loss vl kw p] @ offers p @
                           [Call_maybe_enqueue None],
                  state = st_c\<rparr>)"
      using compute_gradients_after_None [OF assms a, of st_c tf] b None by simp
    show ?thesis
      using a b None c by (intro Nothing [of p st0 st_c]) simp_all
  next
    case (Some e)
    show ?thesis
    proof (cases p)
      case Nil
      have c: "compute_gradients tf self loss vl kw w =
         (Inr [], \<lparr>trace = trace w @ [Call_compute_gradients loss vl kw [],
                            Call_maybe_enqueue (Some e), Call_control_dependencies_enter [e],
                            Call_control_dependencies_exit],
                   state = control_dependencies_exit tf (control_dependencies_enter tf [e] st_c)\<rparr>)"
        using compute_gradients_after_Some_Nil [OF assms, of loss vl kw w st0 e st_c tf]
          a b Some Nil by simp
      show ?thesis
        using a b Some Nil c by (intro Gated_Nil [of st0 e st_c]) simp_all
    next
      case (Cons x rest)
      obtain g v where x: "x = (g, v)" by (cases x)
      obtain res st_i where
        i: "array_ops_identity tf g (control_dependencies_enter tf [e] st_c) = (res, st_i)"
        by (cases "array_ops_identity tf g (control_dependencies_enter tf [e] st_c)")
      have c: "compute_gradients tf self loss vl kw w =
         (case res of Inl x \<Rightarrow> Inl x | Inr g' \<Rightarrow> Inr ((g', v) # rest),
          \<lparr>trace = trace w @ [Call_compute_gradients loss vl kw ((g, v) # rest)] @
                     offers ((g, v) # rest) @
                     [Call_maybe_enqueue (Some e), Call_control_dependencies_enter [e],
                      Call_identity g res, Call_control_dependencies_exit],
           state = control_dependencies_exit tf st_i\<rparr>)"
        using compute_gradients_after_Some_Cons
            [OF assms, of loss vl kw w g v rest st0 e st_c tf res st_i]
          a b Some Cons x i by simp
      show ?thesis
        using a b Some Cons x i c by (intro Gated_Cons [of g v rest st0 e st_c res st_i]) simp_all
    qed
  qed
qed

subsection \<open>Evaluation on the example collaborators\<close>

lemmas example_defs =
  example_tensorflow_def example_optimizer_def stand_in_optimizer_def MaybeOutfeedQueue_def
  example_world_def example_outfeeder_def example_grads_and_vars_def pairs_def

lemmas run_defs =
  apply_gradients_def compute_gradients_def maybe_enqueue_def call_maybe_enqueue_def
  call_maybe_outfeed_def call_apply_gradients_def call_compute_gradients_def
  call_control_dependencies_enter_def call_control_dependencies_exit_def call_identity_def
  log_def new_calls_def

lemmas ev = example_defs run_defs

lemma filter_queue_call_offers_map [simp]:
  "filter is_queue_call (map (\<lambda>(g, v). Call_maybe_outfeed (name v @ ''_grad'') g) xs) =
     map (\<lambda>(g, v). Call_maybe_outfeed (name v @ ''_grad'') g) xs"
  by (induction xs) auto

subsection \<open>Runs of method calls, and what the methods read of the instance\<close>

lemmas accessor_defs = get_name_def get_slot_def get_slot_names_def variables_def

lemma new_calls_log [simp]: "new_calls w (log c st w) = [c]"
  by (simp add: new_calls_def)

lemma invoke_before_no_queue_call:
  assumes "outfeed_optimizer_mode self = BEFORE_APPLY" and "\<not> is_apply_invocation m"
  shows "\<exists>cs. trace (invoke tf self m w) = trace w @ cs \<and> filter is_queue_call cs = []"
proof (cases m)
  case (Compute_gradients loss vl kw)
  show ?thesis
    by (rule compute_gradients_before_cases [OF assms(1), of loss vl kw w tf])
       (simp add: Compute_gradients)
next
  case (Apply_gradients items gs nm)
  then show ?thesis using assms(2) by simp
qed (simp_all add: accessor_defs split: prod.splits)

lemma invoke_after_no_queue_call:
  assumes "outfeed_optimizer_mode self = AFTER_COMPUTE" and "\<not> is_compute_invocation m"
  shows "\<exists>cs. trace (invoke tf self m w) = trace w @ cs \<and> filter is_queue_call cs = []"
proof (cases m)
  case (Compute_gradients loss vl kw)
  then show ?thesis using assms(2) by simp
next
  case (Apply_gradients items gs nm)
  show ?thesis
    by (rule apply_gradients_after_cases [OF assms(1), of items gs nm w tf])
       (simp add: Apply_gradients)
qed (simp_all add: accessor_defs split: prod.splits)

lemma invoke_all_before_no_queue_call:
  assumes "outfeed_optimizer_mode self = BEFORE_APPLY"
    and "list_all (\<lambda>m. \<not> is_apply_invocation m) ms"
  shows "\<exists>cs. trace (invoke_all tf self ms w) = trace w @ cs \<and> filter is_queue_call cs = []"
  using assms(2)
proof (induction ms arbitrary: w)
  case Nil
  show ?case by simp
next
  case (Cons m ms)
  obtain cs where a: "trace (invoke tf self m w) = trace w @ cs" "filter is_queue_call cs = []"
    using invoke_before_no_queue_call [OF assms(1), of m tf w] Cons.prems by auto
  obtain ds where b: "trace (invoke_all tf self ms (invoke tf self m w)) =
      trace (invoke tf self m w) @ ds" "filter is_queue_call ds = []"
    using Cons.IH [of "invoke tf self m w"] Cons.prems by auto
  show ?case
    using a b by (intro exI [of _ "cs @ ds"]) simp
qed

lemma invoke_all_after_no_queue_call:
  assumes "outfeed_optimizer_mode self = AFTER_COMPUTE"
    and "list_all (\<lambda>m. \<not> is_compute_invocation m) ms"
  shows "\<exists>cs. trace (invoke_all tf self ms w) = trace w @ cs \<and> filter is_queue_call cs = []"
  using assms(2)
proof (induction ms arbitrary: w)
  case Nil
  show ?case by simp
next
  case (Cons m ms)
  obtain cs where a: "trace (invoke tf self m w) = trace w @ cs" "filter is_queue_call cs = []"
    using invoke_after_no_queue_call [OF assms(1), of m tf w] Cons.prems by auto
  obtain ds where b: "trace (invoke_all tf self ms (invoke tf self m w)) =
      trace (invoke tf self m w) @ ds" "filter is_queue_call ds = []"
    using Cons.IH [of "invoke tf self m w"] Cons.prems by auto
  show ?case
    using a b by (intro exI [of _ "cs @ ds"]) simp
qed

lemma queue_calls_invoke_all_before:
  assumes "outfeed_optimizer_mode self = BEFORE_APPLY"
    and "list_all (\<lambda>m. \<not> is_apply_invocation m) ms"
  shows "filter is_queue_call (new_calls w (invoke_all tf self ms w)) = []"
  using invoke_all_before_no_queue_call [OF assms, of tf w] new_calls_append by metis

lemma queue_calls_invoke_all_after:
  assumes "outfeed_optimizer_mode self = AFTER_COMPUTE"
    and "list_all (\<lambda>m. \<not> is_compute_invocation m) ms"
  shows "filter is_queue_call (new_calls w (invoke_all tf self ms w)) = []"
  using invoke_all_after_no_queue_call [OF assms, of tf w] new_calls_append by metis

lemma methods_depend_on_three_fields:
  fixes self other :: "('g, 'o, 'k, 'b, 'st) OutfeedOptimizer"
  assumes "wrapped_optimizer other = wrapped_optimizer self"
    and "outfeed other = outfeed self"
    and "outfeed_optimizer_mode other = outfeed_optimizer_mode self"
  shows "compute_gradients tf other = compute_gradients tf self"
    and "apply_gradients tf other = apply_gradients tf self"
    and "invoke tf other = invoke tf self"
    and "invoke_all tf other = invoke_all tf self"
proof -
  have me: "maybe_enqueue other = maybe_enqueue self"
    by (intro ext) (simp only: maybe_enqueue_def assms)
  show c: "compute_gradients tf other = compute_gradients tf self"
    by (intro ext) (simp only: compute_gradients_def assms me)
  show a: "apply_gradients tf other = apply_gradients tf self"
    by (intro ext) (simp only: apply_gradients_def assms me)
  have i: "invoke tf other m = invoke tf self m" for m
    using assms c a by (cases m) (simp_all add: accessor_defs fun_eq_iff)
  then show "invoke tf other = invoke tf self" by (simp add: fun_eq_iff)
  have "invoke_all tf other ms w = invoke_all tf self ms w" for ms w
    by (induction ms arbitrary: w) (simp_all add: i)
  then show "invoke_all tf other = invoke_all tf self" by (simp add: fun_eq_iff)
qed

lemma init_fields:
  assumes "OutfeedOptimizer_init tf wrapped q mode_arg name_arg = Inr self"
  shows "wrapped_optimizer self = wrapped" and "outfeed self = q"
    and "outfeed_optimizer_mode self = (case mode_arg of None \<Rightarrow> BEFORE_APPLY | Some m \<Rightarrow> m)"
  using assms by (auto simp: OutfeedOptimizer_init_def Let_def split: sum.splits)

section \<open>The claims\<close>

subsection \<open>C1\<close>




subsection \<open>C2\<close>

text \<open>
  C2. Whatever the queue and its filters are, the outfeeder offers every pair (in
  \<open>apply_gradients\<close> under before-apply mode, in \<open>compute_gradients\<close> under
  after-compute mode, there for the pairs that the wrapped optimizer produced): the keys
  are the names of the variables, in reverse order, each with the suffix \<open>_grad\<close>, and
  the values are the gradients. The offers reach the queue: the commit runs in the state
  that the queue's \<open>maybe_outfeed\<close> leaves after it has been applied to these keys and
  values, from the last pair to the first, and the state at the end of the method is the
  one that follows from there.
\<close>

theorem offers_are_reversed_suffixed_names:
  "(outfeed_optimizer_mode self = BEFORE_APPLY \<longrightarrow>
      offered (new_calls w (snd (apply_gradients tf self (pairs gv) gs nm w))) =
        map (\<lambda>(g, v). (name v @ ''_grad'', g)) (rev gv)
      \<and> map fst (offered (new_calls w (snd (apply_gradients tf self (pairs gv) gs nm w)))) =
        map (\<lambda>v. name v @ ''_grad'') (rev (map snd gv))
      \<and> (let st_o = foldl (\<lambda>s (g, v). q_maybe_outfeed (outfeed self) (name v @ ''_grad'') g s)
                       (state w) (rev gv);
              r = fst (q_maybe_enqueue (outfeed self) st_o);
              st_c = snd (q_maybe_enqueue (outfeed self) st_o);
              st_a = snd (opt_apply_gradients (wrapped_optimizer self) (pairs gv) gs nm
                       (case r of None \<Rightarrow> st_c | Some e \<Rightarrow> control_dependencies_enter tf [e] st_c))
          in filter is_queue_call (new_calls w (snd (apply_gradients tf self (pairs gv) gs nm w))) =
               map (\<lambda>(g, v). Call_maybe_outfeed (name v @ ''_grad'') g) (rev gv) @
               [Call_maybe_enqueue r]
             \<and> state (snd (apply_gradients tf self (pairs gv) gs nm w)) =
                 (case r of None \<Rightarrow> st_a | Some e \<Rightarrow> control_dependencies_exit tf st_a)))
   \<and> (outfeed_optimizer_mode self = AFTER_COMPUTE \<longrightarrow>
      (let p = fst (opt_compute_gradients (wrapped_optimizer self) loss vl kw (state w));
           st0 = snd (opt_compute_gradients (wrapped_optimizer self) loss vl kw (state w));
           st_o = foldl (\<lambda>s (g, v). q_maybe_outfeed (outfeed self) (name v @ ''_grad'') g s)
                    st0 (rev p);
           r = fst (q_maybe_enqueue (outfeed self) st_o);
           st_c = snd (q_maybe_enqueue (outfeed self) st_o)
       in offered (new_calls w (snd (compute_gradients tf self loss vl kw w))) =
            map (\<lambda>(g, v). (name v @ ''_grad'', g)) (rev p)
          \<and> map fst (offered (new_calls w (snd (compute_gradients tf self loss vl kw w)))) =
            map (\<lambda>v. name v @ ''_grad'') (rev (map snd p))
          \<and> filter is_queue_call (new_calls w (snd (compute_gradients tf self loss vl kw w))) =
               map (\<lambda>(g, v). Call_maybe_outfeed (name v @ ''_grad'') g) (rev p) @
               [Call_maybe_enqueue r]
          \<and> state (snd (compute_gradients tf self loss vl kw w)) =
              (case r of
                 None \<Rightarrow> st_c
               | Some e \<Rightarrow>
                   (case p of
                      [] \<Rightarrow> control_dependencies_exit tf (control_dependencies_enter tf [e] st_c)
                    | (g, v) # rest \<Rightarrow>
                        control_dependencies_exit tf
                          (snd (array_ops_identity tf g
                                  (control_dependencies_enter tf [e] st_c)))))))"
proof (intro conjI impI)
  assume m: "outfeed_optimizer_mode self = BEFORE_APPLY"
  show a: "offered (new_calls w (snd (apply_gradients tf self (pairs gv) gs nm w))) =
        map (\<lambda>(g, v). (name v @ ''_grad'', g)) (rev gv)"
    by (rule apply_gradients_before_cases [OF m, of gv w gs nm tf])
       (simp add: offered_append offered_offers)
  show "map fst (offered (new_calls w (snd (apply_gradients tf self (pairs gv) gs nm w)))) =
        map (\<lambda>v. name v @ ''_grad'') (rev (map snd gv))"
    by (simp add: a rev_map case_prod_beta)
  show "let st_o = foldl (\<lambda>s (g, v). q_maybe_outfeed (outfeed self) (name v @ ''_grad'') g s)
                       (state w) (rev gv);
              r = fst (q_maybe_enqueue (outfeed self) st_o);
              st_c = snd (q_maybe_enqueue (outfeed self) st_o);
              st_a = snd (opt_apply_gradients (wrapped_optimizer self) (pairs gv) gs nm
                       (case r of None \<Rightarrow> st_c | Some e \<Rightarrow> control_dependencies_enter tf [e] st_c))
          in filter is_queue_call (new_calls w (snd (apply_gradients tf self (pairs gv) gs nm w))) =
               map (\<lambda>(g, v). Call_maybe_outfeed (name v @ ''_grad'') g) (rev gv) @
               [Call_maybe_enqueue r]
             \<and> state (snd (apply_gradients tf self (pairs gv) gs nm w)) =
                 (case r of None \<Rightarrow> st_a | Some e \<Rightarrow> control_dependencies_exit tf st_a)"
    by (rule apply_gradients_before_cases [OF m, of gv w gs nm tf])
       (auto simp: Let_def offered_state_def offers_def split: option.splits)
next
  assume m: "outfeed_optimizer_mode self = AFTER_COMPUTE"
  show "let p = fst (opt_compute_gradients (wrapped_optimizer self) loss vl kw (state w));
           st0 = snd (opt_compute_gradients (wrapped_optimizer self) loss vl kw (state w));
           st_o = foldl (\<lambda>s (g, v). q_maybe_outfeed (outfeed self) (name v @ ''_grad'') g s)
                    st0 (rev p);
           r = fst (q_maybe_enqueue (outfeed self) st_o);
           st_c = snd (q_maybe_enqueue (outfeed self) st_o)
       in offered (new_calls w (snd (compute_gradients tf self loss vl kw w))) =
            map (\<lambda>(g, v). (name v @ ''_grad'', g)) (rev p)
          \<and> map fst (offered (new_calls w (snd (compute_gradients tf self loss vl kw w)))) =
            map (\<lambda>v. name v @ ''_grad'') (rev (map snd p))
          \<and> filter is_queue_call (new_calls w (snd (compute_gradients tf self loss vl kw w))) =
               map (\<lambda>(g, v). Call_maybe_outfeed (name v @ ''_grad'') g) (rev p) @
               [Call_maybe_enqueue r]
          \<and> state (snd (compute_gradients tf self loss vl kw w)) =
              (case r of
                 None \<Rightarrow> st_c
               | Some e \<Rightarrow>
                   (case p of
                      [] \<Rightarrow> control_dependencies_exit tf (control_dependencies_enter tf [e] st_c)
                    | (g, v) # rest \<Rightarrow>
                        control_dependencies_exit tf
                          (snd (array_ops_identity tf g
                                  (control_dependencies_enter tf [e] st_c)))))"
  proof (rule compute_gradients_after_cases [OF m, of loss vl kw w tf], goal_cases)
    case (1 p st0 st_c)
    then show ?thesis
      using offered_offers [of p] filter_offers(3) [of p]
      by (auto simp: Let_def offered_state_def offered_append rev_map case_prod_beta offers_def
            split: option.splits)
  next
    case (2 st0 e st_c)
    then show ?thesis
      by (auto simp: Let_def offered_state_def split: option.splits)
  next
    case (3 g v rest st0 e st_c res st_i)
    then show ?thesis
      using offered_offers [of "(g, v) # rest"] filter_offers(3) [of "(g, v) # rest"]
      by (auto simp: Let_def offered_state_def offered_append rev_map case_prod_beta offers_def
            split: option.splits)
  qed
qed

theorem offers_are_reversed_suffixed_names_witness:
  "outfeed_optimizer_mode (example_outfeeder (Some [''weight'']) BEFORE_APPLY) = BEFORE_APPLY
   \<and> offered (new_calls example_world
        (snd (apply_gradients example_tensorflow (example_outfeeder (Some [''weight'']) BEFORE_APPLY)
           (pairs example_grads_and_vars) None None example_world))) =
       [(''bias1_grad'', Grad 5), (''weight1_grad'', Grad 7)]
   \<and> state (snd (apply_gradients example_tensorflow
                 (example_outfeeder (Some [''weight'']) BEFORE_APPLY)
                 (pairs example_grads_and_vars) None None example_world)) =
       \<lparr>control_stack = [], queue_vals = [(''weight1_grad'', Grad 7)], enqueued = True,
        global_steps = 0\<rparr>
   \<and> outfeed_optimizer_mode (example_outfeeder None AFTER_COMPUTE) = AFTER_COMPUTE
   \<and> map fst (offered (new_calls example_world
        (snd (compute_gradients example_tensorflow (example_outfeeder None AFTER_COMPUTE)
           (Grad 0) None () example_world)))) =
       [''bias1_grad'', ''weight1_grad'']
   \<and> state (snd (compute_gradients example_tensorflow (example_outfeeder None AFTER_COMPUTE)
                 (Grad 0) None () example_world)) =
       \<lparr>control_stack = [],
        queue_vals = [(''bias1_grad'', Grad 5), (''weight1_grad'', Grad 7)], enqueued = True,
        global_steps = 0\<rparr>"
  using offers_are_reversed_suffixed_names
    [of "example_outfeeder (Some [''weight'']) BEFORE_APPLY" example_world example_tensorflow
        example_grads_and_vars None None]
    offers_are_reversed_suffixed_names
    [of "example_outfeeder None AFTER_COMPUTE" example_world example_tensorflow
        _ _ _ "Grad 0" None "()"]
  by (simp add: ev)

subsection \<open>C3\<close>

text \<open>
  C3. In after-compute mode with a commit that returned an operation, \<open>compute_gradients\<close>
  is to return the produced sequence with its first gradient replaced by an identity that
  depends on the commit. It does so only when the identity succeeds: whenever the call
  \<open>array_ops.identity(x)\<close> on the first gradient raises, \<open>compute_gradients\<close> raises the
  same exception from inside the \<open>with\<close> block, after the offers and the commit have
  been made, and returns no sequence. This happens on the pairs
  \<open>[(None, unused1), (g, weight1)]\<close>, which a wrapped optimizer produces when the loss does
  not depend on \<open>unused1\<close>, with a queue that accepts the gradient of \<open>weight1\<close>: the
  identity of \<open>None\<close> is a \<open>ValueError\<close>. The docstring promises a list of pairs and
  names no exception.
\<close>

theorem compute_gradients_raises_when_identity_raises:
  assumes "outfeed_optimizer_mode self = AFTER_COMPUTE"
    and "opt_compute_gradients (wrapped_optimizer self) loss var_list kwargs (state w) =
           ((g, v) # rest, st0)"
    and "q_maybe_enqueue (outfeed self) (offered_state (outfeed self) ((g, v) # rest) st0) =
           (Some e, st_c)"
    and "array_ops_identity tf g (control_dependencies_enter tf [e] st_c) = (Inl x, st_i)"
  shows "compute_gradients tf self loss var_list kwargs w =
           (Inl x,
            \<lparr>trace = trace w @ [Call_compute_gradients loss var_list kwargs ((g, v) # rest)] @
                       offers ((g, v) # rest) @
                       [Call_maybe_enqueue (Some e), Call_control_dependencies_enter [e],
                        Call_identity g (Inl x), Call_control_dependencies_exit],
             state = control_dependencies_exit tf st_i\<rparr>)"
  using compute_gradients_after_Some_Cons [OF assms] by simp

theorem compute_gradients_raises_when_identity_raises_witness:
  "outfeed_optimizer_mode (example_outfeeder (Some [''weight'']) AFTER_COMPUTE) = AFTER_COMPUTE
   \<and> opt_compute_gradients example_optimizer (Grad 0)
        (Some [Variable ''unused1'', Variable ''weight1'']) () (state example_world) =
       ([(No_gradient, Variable ''unused1''), (Grad 7, Variable ''weight1'')],
        state example_world)
   \<and> q_maybe_enqueue (MaybeOutfeedQueue (Some [''weight'']))
        (offered_state (MaybeOutfeedQueue (Some [''weight'']))
           [(No_gradient, Variable ''unused1''), (Grad 7, Variable ''weight1'')]
           (state example_world)) =
       (Some 7, \<lparr>control_stack = [], queue_vals = [(''weight1_grad'', Grad 7)],
                  enqueued = True, global_steps = 0\<rparr>)
   \<and> array_ops_identity example_tensorflow No_gradient
        (control_dependencies_enter example_tensorflow [7]
           \<lparr>control_stack = [], queue_vals = [(''weight1_grad'', Grad 7)],
             enqueued = True, global_steps = 0\<rparr>) =
       (Inl (Exn ''ValueError'' ''None values not supported.''),
        \<lparr>control_stack = [[7]], queue_vals = [(''weight1_grad'', Grad 7)],
          enqueued = True, global_steps = 0\<rparr>)
   \<and> compute_gradients example_tensorflow (example_outfeeder (Some [''weight'']) AFTER_COMPUTE)
        (Grad 0) (Some [Variable ''unused1'', Variable ''weight1'']) () example_world =
       (Inl (Exn ''ValueError'' ''None values not supported.''),
        \<lparr>trace =
           [Call_compute_gradients (Grad 0) (Some [Variable ''unused1'', Variable ''weight1'']) ()
              [(No_gradient, Variable ''unused1''), (Grad 7, Variable ''weight1'')],
            Call_maybe_outfeed ''weight1_grad'' (Grad 7),
            Call_maybe_outfeed ''unused1_grad'' No_gradient,
            Call_maybe_enqueue (Some 7),
            Call_control_dependencies_enter [7],
            Call_identity No_gradient (Inl (Exn ''ValueError'' ''None values not supported.'')),
            Call_control_dependencies_exit],
         state = \<lparr>control_stack = [], queue_vals = [(''weight1_grad'', Grad 7)],
                   enqueued = True, global_steps = 0\<rparr>\<rparr>)"
proof -
  have m: "outfeed_optimizer_mode (example_outfeeder (Some [''weight'']) AFTER_COMPUTE) =
             AFTER_COMPUTE"
    by (simp add: ev)
  have c: "opt_compute_gradients
             (wrapped_optimizer (example_outfeeder (Some [''weight'']) AFTER_COMPUTE)) (Grad 0)
             (Some [Variable ''unused1'', Variable ''weight1'']) () (state example_world) =
           ((No_gradient, Variable ''unused1'') # [(Grad 7, Variable ''weight1'')],
            state example_world)"
    by (simp add: ev)
  have q: "q_maybe_enqueue (outfeed (example_outfeeder (Some [''weight'']) AFTER_COMPUTE))
             (offered_state (outfeed (example_outfeeder (Some [''weight'']) AFTER_COMPUTE))
                ((No_gradient, Variable ''unused1'') # [(Grad 7, Variable ''weight1'')])
                (state example_world)) =
           (Some 7, \<lparr>control_stack = [], queue_vals = [(''weight1_grad'', Grad 7)],
                      enqueued = True, global_steps = 0\<rparr>)"
    by (simp add: ev offered_state_def)
  have i: "array_ops_identity example_tensorflow No_gradient
             (control_dependencies_enter example_tensorflow [7]
                \<lparr>control_stack = [], queue_vals = [(''weight1_grad'', Grad 7)],
                  enqueued = True, global_steps = 0\<rparr>) =
           (Inl (Exn ''ValueError'' ''None values not supported.''),
            \<lparr>control_stack = [[7]], queue_vals = [(''weight1_grad'', Grad 7)],
              enqueued = True, global_steps = 0\<rparr>)"
    by (simp add: ev)
  show ?thesis
    using compute_gradients_raises_when_identity_raises [OF m c q i] m c q i
    by (simp add: ev offers_def)
qed

subsection \<open>C4\<close>

text \<open>
  C4. In after-compute mode, when the commit returned nothing, \<open>compute_gradients\<close>
  returns the sequence that the wrapped optimizer produced, as it is, and the framework
  is never asked for a control dependency or an identity. (Values of the logic have no
  identity of their own: equality of the lists is what reference equality becomes.)
\<close>

theorem compute_gradients_unchanged_when_nothing_accepted:
  assumes "outfeed_optimizer_mode self = AFTER_COMPUTE"
    and "Call_maybe_enqueue None \<in>
           set (new_calls w (snd (compute_gradients tf self loss vl kw w)))"
  shows "fst (compute_gradients tf self loss vl kw w) =
           Inr (fst (opt_compute_gradients (wrapped_optimizer self) loss vl kw (state w)))
         \<and> filter is_graph_call (new_calls w (snd (compute_gradients tf self loss vl kw w))) = []"
proof (rule compute_gradients_after_cases [OF assms(1), of loss vl kw w tf], goal_cases)
  case (1 p st0 st_c)
  then show ?case by simp
next
  case (2 st0 e st_c)
  then show ?case using assms(2) by simp
next
  case (3 g v rest st0 e st_c res st_i)
  then show ?case using assms(2) by simp
qed

theorem compute_gradients_unchanged_when_nothing_accepted_witness:
  "outfeed_optimizer_mode (example_outfeeder (Some [''zzz'']) AFTER_COMPUTE) = AFTER_COMPUTE
   \<and> Call_maybe_enqueue None \<in> set (new_calls example_world
        (snd (compute_gradients example_tensorflow (example_outfeeder (Some [''zzz'']) AFTER_COMPUTE)
           (Grad 0) None () example_world)))
   \<and> fst (compute_gradients example_tensorflow (example_outfeeder (Some [''zzz'']) AFTER_COMPUTE)
           (Grad 0) None () example_world) =
       Inr [(Grad 7, Variable ''weight1''), (Grad 5, Variable ''bias1'')]
   \<and> filter is_graph_call (new_calls example_world
        (snd (compute_gradients example_tensorflow (example_outfeeder (Some [''zzz'']) AFTER_COMPUTE)
           (Grad 0) None () example_world))) = []"
  using compute_gradients_unchanged_when_nothing_accepted
    [of "example_outfeeder (Some [''zzz'']) AFTER_COMPUTE" example_world example_tensorflow
        "Grad 0" None "()"]
  by (simp add: ev)

subsection \<open>C5\<close>

text \<open>
  C5. The mode of an instance is the one its constructor was given (before-apply when it
  was given none), and no method stores anything in the instance: a method receives the
  instance and returns a result and the collaborators' new state, nothing else. Exactly
  one of the two interception points talks to the queue: in before-apply mode
  \<open>compute_gradients\<close> makes no queue call and \<open>apply_gradients\<close> makes some, in
  after-compute mode it is the other way round, and this stays so over any run of method
  calls on the instance. What the methods do depends on the instance only through the
  wrapped optimizer, the queue and the mode.
\<close>

theorem one_interception_point_fixed_at_construction:
  fixes self :: "('g, 'o, 'k, 'b, 'st) OutfeedOptimizer"
  shows
  "(outfeed_optimizer_mode self = BEFORE_APPLY \<longrightarrow>
       filter is_queue_call (new_calls w (snd (compute_gradients tf self loss vl kw w))) = []
     \<and> filter is_queue_call (new_calls w (snd (apply_gradients tf self (pairs gv) gs nm w))) \<noteq> []
     \<and> (list_all (\<lambda>m. \<not> is_apply_invocation m) ms \<longrightarrow>
          filter is_queue_call (new_calls w (invoke_all tf self ms w)) = []))
   \<and> (outfeed_optimizer_mode self = AFTER_COMPUTE \<longrightarrow>
       filter is_queue_call (new_calls w (snd (apply_gradients tf self (pairs gv) gs nm w))) = []
     \<and> filter is_queue_call (new_calls w (snd (compute_gradients tf self loss vl kw w))) \<noteq> []
     \<and> (list_all (\<lambda>m. \<not> is_compute_invocation m) ms \<longrightarrow>
          filter is_queue_call (new_calls w (invoke_all tf self ms w)) = []))
   \<and> (\<forall>other :: ('g, 'o, 'k, 'b, 'st) OutfeedOptimizer.
         wrapped_optimizer other = wrapped_optimizer self \<and> outfeed other = outfeed self
         \<and> outfeed_optimizer_mode other = outfeed_optimizer_mode self \<longrightarrow>
           compute_gradients tf other = compute_gradients tf self
           \<and> apply_gradients tf other = apply_gradients tf self
           \<and> invoke_all tf other = invoke_all tf self)
   \<and> (\<forall>wrapped q mode_arg name_arg.
         OutfeedOptimizer_init tf wrapped q mode_arg name_arg = Inr self \<longrightarrow>
           outfeed_optimizer_mode self = (case mode_arg of None \<Rightarrow> BEFORE_APPLY | Some m \<Rightarrow> m))"
proof (intro conjI impI allI)
  assume m: "outfeed_optimizer_mode self = BEFORE_APPLY"
  show "filter is_queue_call (new_calls w (snd (compute_gradients tf self loss vl kw w))) = []"
    by (rule compute_gradients_before_cases [OF m, of loss vl kw w tf]) simp
  show "filter is_queue_call (new_calls w (snd (apply_gradients tf self (pairs gv) gs nm w))) \<noteq> []"
    by (rule apply_gradients_before_cases [OF m, of gv w gs nm tf]) simp
  assume "list_all (\<lambda>m. \<not> is_apply_invocation m) ms"
  then show "filter is_queue_call (new_calls w (invoke_all tf self ms w)) = []"
    by (rule queue_calls_invoke_all_before [OF m])
next
  assume m: "outfeed_optimizer_mode self = AFTER_COMPUTE"
  show "filter is_queue_call (new_calls w (snd (apply_gradients tf self (pairs gv) gs nm w))) = []"
    by (rule apply_gradients_after_cases [OF m, of "pairs gv" gs nm w tf]) simp
  show "filter is_queue_call (new_calls w (snd (compute_gradients tf self loss vl kw w))) \<noteq> []"
    by (rule compute_gradients_after_cases [OF m, of loss vl kw w tf]) simp_all
  assume "list_all (\<lambda>m. \<not> is_compute_invocation m) ms"
  then show "filter is_queue_call (new_calls w (invoke_all tf self ms w)) = []"
    by (rule queue_calls_invoke_all_after [OF m])
next
  fix other :: "('g, 'o, 'k, 'b, 'st) OutfeedOptimizer"
  assume a: "wrapped_optimizer other = wrapped_optimizer self \<and> outfeed other = outfeed self
         \<and> outfeed_optimizer_mode other = outfeed_optimizer_mode self"
  show "compute_gradients tf other = compute_gradients tf self"
    using a by (intro methods_depend_on_three_fields) simp_all
  show "apply_gradients tf other = apply_gradients tf self"
    using a by (intro methods_depend_on_three_fields) simp_all
  show "invoke_all tf other = invoke_all tf self"
    using a by (intro methods_depend_on_three_fields) simp_all
next
  fix wrapped q mode_arg name_arg
  assume "OutfeedOptimizer_init tf wrapped q mode_arg name_arg = Inr self"
  then show "outfeed_optimizer_mode self = (case mode_arg of None \<Rightarrow> BEFORE_APPLY | Some m \<Rightarrow> m)"
    by (rule init_fields)
qed

theorem one_interception_point_fixed_at_construction_witness:
  "outfeed_optimizer_mode (example_outfeeder None BEFORE_APPLY) = BEFORE_APPLY
   \<and> list_all (\<lambda>m. \<not> is_apply_invocation m)
        [Compute_gradients (Grad 0) None (), Get_name, Compute_gradients (Grad 1) None ()]
   \<and> filter is_queue_call (new_calls example_world
        (invoke_all example_tensorflow (example_outfeeder None BEFORE_APPLY)
           [Compute_gradients (Grad 0) None (), Get_name, Compute_gradients (Grad 1) None ()]
           example_world)) = []
   \<and> filter is_queue_call (new_calls example_world
        (snd (apply_gradients example_tensorflow (example_outfeeder None BEFORE_APPLY)
           (pairs example_grads_and_vars) None None example_world))) =
       [Call_maybe_outfeed ''bias1_grad'' (Grad 5), Call_maybe_outfeed ''weight1_grad'' (Grad 7),
        Call_maybe_enqueue (Some 7)]
   \<and> outfeed_optimizer_mode (example_outfeeder None AFTER_COMPUTE) = AFTER_COMPUTE
   \<and> list_all (\<lambda>m. \<not> is_compute_invocation m)
        [Apply_gradients (pairs example_grads_and_vars) None None, Variables]
   \<and> filter is_queue_call (new_calls example_world
        (invoke_all example_tensorflow (example_outfeeder None AFTER_COMPUTE)
           [Apply_gradients (pairs example_grads_and_vars) None None, Variables] example_world)) = []
   \<and> filter is_queue_call (new_calls example_world
        (snd (compute_gradients example_tensorflow (example_outfeeder None AFTER_COMPUTE)
           (Grad 0) None () example_world))) =
       [Call_maybe_outfeed ''bias1_grad'' (Grad 5), Call_maybe_outfeed ''weight1_grad'' (Grad 7),
        Call_maybe_enqueue (Some 7)]
   \<and> apply_gradients example_tensorflow
        ((example_outfeeder None BEFORE_APPLY)\<lparr>base := (True, ''another name'')\<rparr>)
        (pairs example_grads_and_vars) None None example_world =
       apply_gradients example_tensorflow (example_outfeeder None BEFORE_APPLY)
        (pairs example_grads_and_vars) None None example_world
   \<and> OutfeedOptimizer_init example_tensorflow example_optimizer (MaybeOutfeedQueue None)
        (Some AFTER_COMPUTE) None = Inr (example_outfeeder None AFTER_COMPUTE)"
proof -
  let ?b = "example_outfeeder None BEFORE_APPLY"
  let ?a = "example_outfeeder None AFTER_COMPUTE"
  let ?o = "?b\<lparr>base := (True, ''another name'')\<rparr>"
  let ?msb = "[Compute_gradients (Grad 0) None (), Get_name, Compute_gradients (Grad 1) None ()]"
  let ?msa = "[Apply_gradients (pairs example_grads_and_vars) None None, Variables]"
  have mb: "outfeed_optimizer_mode ?b = BEFORE_APPLY" and ma: "outfeed_optimizer_mode ?a = AFTER_COMPUTE"
    by (simp_all add: example_outfeeder_def)
  have lb: "list_all (\<lambda>m. \<not> is_apply_invocation m) ?msb"
    and la: "list_all (\<lambda>m. \<not> is_compute_invocation m) ?msa"
    by simp_all
  note tb = one_interception_point_fixed_at_construction
    [where self = ?b and w = example_world
       and tf = example_tensorflow and gv = example_grads_and_vars and gs = None and nm = None
       and loss = "Grad 0" and vl = None and kw = "()" and ms = ?msb]
  note ta = one_interception_point_fixed_at_construction
    [where self = ?a and w = example_world
       and tf = example_tensorflow and gv = example_grads_and_vars and gs = None and nm = None
       and loss = "Grad 0" and vl = None and kw = "()" and ms = ?msa]
  have b3: "filter is_queue_call (new_calls example_world
        (invoke_all example_tensorflow ?b ?msb example_world)) = []"
    using tb mb lb by blast
  have a3: "filter is_queue_call (new_calls example_world
        (invoke_all example_tensorflow ?a ?msa example_world)) = []"
    using ta ma la by blast
  have o: "wrapped_optimizer ?o = wrapped_optimizer ?b \<and> outfeed ?o = outfeed ?b
         \<and> outfeed_optimizer_mode ?o = outfeed_optimizer_mode ?b"
    by simp
  have e: "apply_gradients example_tensorflow ?o = apply_gradients example_tensorflow ?b"
    using tb o by blast
  have b2: "filter is_queue_call (new_calls example_world
        (snd (apply_gradients example_tensorflow ?b
           (pairs example_grads_and_vars) None None example_world))) =
       [Call_maybe_outfeed ''bias1_grad'' (Grad 5), Call_maybe_outfeed ''weight1_grad'' (Grad 7),
        Call_maybe_enqueue (Some 7)]"
    by (simp add: ev)
  have a2: "filter is_queue_call (new_calls example_world
        (snd (compute_gradients example_tensorflow ?a (Grad 0) None () example_world))) =
       [Call_maybe_outfeed ''bias1_grad'' (Grad 5), Call_maybe_outfeed ''weight1_grad'' (Grad 7),
        Call_maybe_enqueue (Some 7)]"
    by (simp add: ev)
  have i: "OutfeedOptimizer_init example_tensorflow example_optimizer (MaybeOutfeedQueue None)
        (Some AFTER_COMPUTE) None = Inr ?a"
    by (simp add: OutfeedOptimizer_init_def example_outfeeder_def example_tensorflow_def example_optimizer_def)
  show ?thesis
    using mb lb b3 b2 ma la a3 a2 e i by (simp only: simp_thms)
qed

subsection \<open>C6\<close>



subsection \<open>C7\<close>

text \<open>
  C7. Malformed pairs passed to \<open>apply_gradients\<close> are to fail with the error that the
  wrapped optimizer raises for them (\<open>ValueError\<close>, by the docstring), the outfeeder
  checking nothing itself. In before-apply mode, the default, they do not: the loop of
  \<open>_maybe_enqueue\<close> goes through the list from its end, and at the first element that
  it cannot use it raises itself: \<open>AttributeError\<close> on a pair \<open>(g, None)\<close>, whose
  \<open>v.name\<close> it reads, \<open>ValueError\<close> on a sequence that is not of two, \<open>TypeError\<close> on
  an element that is no sequence. The pairs behind that element have been offered to the
  queue by then; there is no commit, and the wrapped optimizer is never called. In
  after-compute mode the same lists reach the wrapped optimizer and fail with its error.
\<close>

theorem apply_gradients_raises_in_its_own_loop:
  assumes "outfeed_optimizer_mode self = BEFORE_APPLY"
  shows "apply_gradients tf self (front @ Two g None # pairs good) global_step nm w =
           (Inl (Exn ''AttributeError'' ''object has no attribute name''),
            \<lparr>trace = trace w @ offers good,
              state = offered_state (outfeed self) good (state w)\<rparr>)
         \<and> apply_gradients tf self (front @ Not_two # pairs good) global_step nm w =
           (Inl (Exn ''ValueError'' ''wrong number of values to unpack (expected 2)''),
            \<lparr>trace = trace w @ offers good,
              state = offered_state (outfeed self) good (state w)\<rparr>)
         \<and> apply_gradients tf self (front @ Not_iterable # pairs good) global_step nm w =
           (Inl (Exn ''TypeError'' ''cannot unpack non-iterable object''),
            \<lparr>trace = trace w @ offers good,
              state = offered_state (outfeed self) good (state w)\<rparr>)"
  using assms
  by (simp add: apply_gradients_def maybe_enqueue_def rev_pairs offers_def offered_state_def
        offer_all_stops)

theorem apply_gradients_raises_in_its_own_loop_witness:
  "outfeed_optimizer_mode (example_outfeeder None BEFORE_APPLY) = BEFORE_APPLY
   \<and> apply_gradients example_tensorflow (example_outfeeder None BEFORE_APPLY)
        [Two (Grad 7) None] None None example_world =
       (Inl (Exn ''AttributeError'' ''object has no attribute name''), example_world)
   \<and> filter is_apply_call (new_calls example_world
        (snd (apply_gradients example_tensorflow (example_outfeeder None BEFORE_APPLY)
           [Two (Grad 7) None] None None example_world))) = []
   \<and> fst (opt_apply_gradients example_optimizer [Two (Grad 7) None] None None
           (state example_world)) = Inl (Exn ''ValueError'' ''malformed grads_and_vars'')
   \<and> fst (apply_gradients example_tensorflow (example_outfeeder None AFTER_COMPUTE)
           [Two (Grad 7) None] None None example_world) =
       Inl (Exn ''ValueError'' ''malformed grads_and_vars'')
   \<and> apply_gradients example_tensorflow (example_outfeeder None BEFORE_APPLY)
        [Two (Grad 3) None, Two (Grad 7) (Some (Variable ''weight1''))] None None example_world =
       (Inl (Exn ''AttributeError'' ''object has no attribute name''),
        \<lparr>trace = [Call_maybe_outfeed ''weight1_grad'' (Grad 7)],
          state = \<lparr>control_stack = [], queue_vals = [(''weight1_grad'', Grad 7)],
                    enqueued = False, global_steps = 0\<rparr>\<rparr>)
   \<and> fst (apply_gradients example_tensorflow (example_outfeeder None BEFORE_APPLY)
           [Not_two] None None example_world) =
       Inl (Exn ''ValueError'' ''wrong number of values to unpack (expected 2)'')
   \<and> new_calls example_world
        (snd (apply_gradients example_tensorflow (example_outfeeder None BEFORE_APPLY)
           [Not_two] None None example_world)) = []"
  using apply_gradients_raises_in_its_own_loop
          [of "example_outfeeder None BEFORE_APPLY" example_tensorflow "[]" "Grad 7" "[]"
              None None example_world]
  by (simp add: ev)

subsection \<open>C8\<close>

text \<open>
  C8. Each of the four accessors (\<open>get_name\<close>, \<open>get_slot\<close>, \<open>get_slot_names\<close>,
  \<open>variables\<close>) returns what the same accessor of the wrapped optimizer returns on the
  same arguments, leaves the state that accessor leaves, and makes that one call only;
  two instances around the same wrapped optimizer have the same accessors, whatever their
  other attributes are.
\<close>

theorem accessors_delegate:
  "fst (get_name self w) = fst (opt_get_name (wrapped_optimizer self) (state w))
   \<and> state (snd (get_name self w)) = snd (opt_get_name (wrapped_optimizer self) (state w))
   \<and> new_calls w (snd (get_name self w)) = [Call_get_name (fst (get_name self w))]
   \<and> fst (get_slot self var slot_name w) =
       fst (opt_get_slot (wrapped_optimizer self) var slot_name (state w))
   \<and> state (snd (get_slot self var slot_name w)) =
       snd (opt_get_slot (wrapped_optimizer self) var slot_name (state w))
   \<and> new_calls w (snd (get_slot self var slot_name w)) =
       [Call_get_slot var slot_name (fst (get_slot self var slot_name w))]
   \<and> fst (get_slot_names self w) = fst (opt_get_slot_names (wrapped_optimizer self) (state w))
   \<and> state (snd (get_slot_names self w)) =
       snd (opt_get_slot_names (wrapped_optimizer self) (state w))
   \<and> new_calls w (snd (get_slot_names self w)) = [Call_get_slot_names (fst (get_slot_names self w))]
   \<and> fst (variables self w) = fst (opt_variables (wrapped_optimizer self) (state w))
   \<and> state (snd (variables self w)) = snd (opt_variables (wrapped_optimizer self) (state w))
   \<and> new_calls w (snd (variables self w)) = [Call_variables (fst (variables self w))]
   \<and> (\<forall>other :: ('g, 'o, 'k, 'b, 'st) OutfeedOptimizer.
         wrapped_optimizer other = wrapped_optimizer self \<longrightarrow>
           get_name other = get_name self \<and> get_slot other = get_slot self
           \<and> get_slot_names other = get_slot_names self \<and> variables other = variables self)"
  by (auto simp: accessor_defs fun_eq_iff split: prod.splits)

theorem accessors_delegate_witness:
  "wrapped_optimizer (example_outfeeder (Some [''zzz'']) AFTER_COMPUTE) =
     wrapped_optimizer (example_outfeeder None BEFORE_APPLY)
   \<and> get_name (example_outfeeder (Some [''zzz'']) AFTER_COMPUTE) example_world =
       get_name (example_outfeeder None BEFORE_APPLY) example_world
   \<and> fst (get_name (example_outfeeder None BEFORE_APPLY) example_world) = ''GradientDescent''
   \<and> fst (get_slot (example_outfeeder None BEFORE_APPLY) (Variable ''weight1'') ''momentum''
           example_world) = None
   \<and> fst (get_slot_names (example_outfeeder None BEFORE_APPLY) example_world) = []
   \<and> fst (variables (example_outfeeder None BEFORE_APPLY) example_world) = []"
  using accessors_delegate
    [of "example_outfeeder None BEFORE_APPLY" example_world "Variable ''weight1''" "''momentum''"]
  by (simp add: example_defs accessor_defs)

subsection \<open>C9\<close>

text \<open>
  C9. An instance constructed without a mode argument is in before-apply mode: its
  \<open>compute_gradients\<close> makes no call to the queue, and its \<open>apply_gradients\<close> offers
  every pair, reversed, to the queue it was constructed with, and then commits.
\<close>

theorem default_mode_is_before_apply:
  assumes "OutfeedOptimizer_init tf wrapped q None name_arg = Inr self"
  shows "outfeed_optimizer_mode self = BEFORE_APPLY
         \<and> wrapped_optimizer self = wrapped \<and> outfeed self = q
         \<and> filter is_queue_call (new_calls w (snd (compute_gradients tf self loss vl kw w))) = []
         \<and> (\<exists>r. filter is_queue_call
                  (new_calls w (snd (apply_gradients tf self (pairs gv) gs nm w))) =
                  map (\<lambda>(g, v). Call_maybe_outfeed (name v @ ''_grad'') g) (rev gv) @
                  [Call_maybe_enqueue r])"
proof -
  have m: "outfeed_optimizer_mode self = BEFORE_APPLY"
    using init_fields(3) [OF assms] by simp
  have c: "filter is_queue_call (new_calls w (snd (compute_gradients tf self loss vl kw w))) = []"
    by (rule compute_gradients_before_cases [OF m, of loss vl kw w tf]) simp
  have a: "\<exists>r. filter is_queue_call
                  (new_calls w (snd (apply_gradients tf self (pairs gv) gs nm w))) =
                  map (\<lambda>(g, v). Call_maybe_outfeed (name v @ ''_grad'') g) (rev gv) @
                  [Call_maybe_enqueue r]"
    by (rule apply_gradients_before_cases [OF m, of gv w gs nm tf]) (simp add: offers_def)
  show ?thesis
    using m init_fields(1,2) [OF assms] c a by simp
qed

theorem default_mode_is_before_apply_witness:
  "OutfeedOptimizer_init example_tensorflow example_optimizer (MaybeOutfeedQueue (Some [''weight'']))
       None None = Inr (example_outfeeder (Some [''weight'']) BEFORE_APPLY)
   \<and> outfeed_optimizer_mode (example_outfeeder (Some [''weight'']) BEFORE_APPLY) = BEFORE_APPLY
   \<and> filter is_queue_call (new_calls example_world
        (snd (compute_gradients example_tensorflow (example_outfeeder (Some [''weight'']) BEFORE_APPLY)
           (Grad 0) None () example_world))) = []
   \<and> filter is_queue_call (new_calls example_world
        (snd (apply_gradients example_tensorflow (example_outfeeder (Some [''weight'']) BEFORE_APPLY)
           (pairs example_grads_and_vars) None None example_world))) =
       [Call_maybe_outfeed ''bias1_grad'' (Grad 5), Call_maybe_outfeed ''weight1_grad'' (Grad 7),
        Call_maybe_enqueue (Some 7)]"
  using default_mode_is_before_apply
    [of example_tensorflow example_optimizer "MaybeOutfeedQueue (Some [''weight''])" None
        "example_outfeeder (Some [''weight'']) BEFORE_APPLY" example_world "Grad 0" None "()"
        example_grads_and_vars None None]
  by (simp add: ev OutfeedOptimizer_init_def)

subsection \<open>C10\<close>

text \<open>
  C10. The name given to the constructor (or its default) goes to the constructor of the
  base class only: \<open>get_name\<close> of the instance returns the wrapped optimizer's name, and
  two instances that differ in the name argument alone have the same \<open>get_name\<close>.
\<close>

theorem get_name_ignores_constructor_name:
  assumes "OutfeedOptimizer_init tf wrapped q mode_arg name_arg = Inr self"
  shows "fst (get_name self w) = fst (opt_get_name wrapped (state w))
         \<and> (\<forall>name_arg' self'.
               OutfeedOptimizer_init tf wrapped q mode_arg name_arg' = Inr self' \<longrightarrow>
                 get_name self' = get_name self)"
proof -
  have wr: "wrapped_optimizer s = wrapped"
    if "OutfeedOptimizer_init tf wrapped q mode_arg n = Inr s" for n s
    using that by (auto simp: OutfeedOptimizer_init_def Let_def split: sum.splits)
  show ?thesis
    using wr [OF assms] wr
    by (auto simp: get_name_def fun_eq_iff split: prod.splits)
qed

theorem get_name_ignores_constructor_name_witness:
  "OutfeedOptimizer_init example_tensorflow example_optimizer (MaybeOutfeedQueue None) None
       (Some ''my_outfeeder'') =
     Inr \<lparr>base = (False, ''my_outfeeder''), wrapped_optimizer = example_optimizer,
          outfeed = MaybeOutfeedQueue None, outfeed_optimizer_mode = BEFORE_APPLY\<rparr>
   \<and> fst (get_name \<lparr>base = (False, ''my_outfeeder''), wrapped_optimizer = example_optimizer,
          outfeed = MaybeOutfeedQueue None, outfeed_optimizer_mode = BEFORE_APPLY\<rparr>
          example_world) = ''GradientDescent''
   \<and> OutfeedOptimizer_init example_tensorflow example_optimizer (MaybeOutfeedQueue None) None
       None = Inr (example_outfeeder None BEFORE_APPLY)
   \<and> get_name (example_outfeeder None BEFORE_APPLY) example_world =
       get_name \<lparr>base = (False, ''my_outfeeder''), wrapped_optimizer = example_optimizer,
          outfeed = MaybeOutfeedQueue None, outfeed_optimizer_mode = BEFORE_APPLY\<rparr>
          example_world"
  using get_name_ignores_constructor_name
    [of example_tensorflow example_optimizer "MaybeOutfeedQueue None" None "Some ''my_outfeeder''"
        "\<lparr>base = (False, ''my_outfeeder''), wrapped_optimizer = example_optimizer,
          outfeed = MaybeOutfeedQueue None, outfeed_optimizer_mode = BEFORE_APPLY\<rparr>"
        example_world]
  by (simp add: OutfeedOptimizer_init_def example_outfeeder_def example_tensorflow_def
        get_name_def example_optimizer_def stand_in_optimizer_def example_world_def)

end
